theory Spec2Isabelle
  imports Complex_Main "HOL-Library.Sublist"
begin

section \<open>Python strings\<close>

text \<open>
  A Python \<open>str\<close> is a sequence of code points. A \<^typ>\<open>string\<close> here is a list of
  \<^typ>\<open>char\<close>, and every \<^typ>\<open>char\<close> stands for ONE code point of the range
  U+0000..U+00FF (ASCII and the Latin-1 block), \<^term>\<open>of_char c\<close> being its number.
  Texts with code points beyond U+00FF are outside this model. The string methods below
  are the ones \<open>monitor.py\<close> calls, written out on that range.
\<close>

definition isspace :: "char \<Rightarrow> bool" where
  \<comment> \<open>the white space that \<open>str.strip()\<close> removes: TAB, LF, VT, FF, CR, FS, GS, RS, US,
      SPACE, NEL (U+0085), NBSP (U+00A0)\<close>
  "isspace c = (let n = (of_char c :: nat) in
     (9 \<le> n \<and> n \<le> 13) \<or> (28 \<le> n \<and> n \<le> 32) \<or> n = 133 \<or> n = 160)"

definition strip :: "string \<Rightarrow> string" where
  "strip s = rev (dropWhile isspace (rev (dropWhile isspace s)))"

definition lower_char :: "char \<Rightarrow> char" where
  \<comment> \<open>A..Z and the capital letters U+00C0..U+00DE (U+00D7 is the multiplication sign)\<close>
  "lower_char c = (let n = (of_char c :: nat) in
     if (65 \<le> n \<and> n \<le> 90) \<or> (192 \<le> n \<and> n \<le> 222 \<and> n \<noteq> 215)
     then char_of (n + 32) else c)"

definition lower :: "string \<Rightarrow> string" where
  "lower s = map lower_char s"

definition upper_char :: "char \<Rightarrow> string" where
  \<comment> \<open>a..z and the small letters U+00E0..U+00FE (U+00F7 is the division sign); the sharp s
      (U+00DF) becomes two letters. The micro sign (U+00B5) and the y with diaeresis
      (U+00FF) have their capital beyond U+00FF: they are left as they are, which no
      comparison with an ASCII word can tell from the capital.\<close>
  "upper_char c = (let n = (of_char c :: nat) in
     if (97 \<le> n \<and> n \<le> 122) \<or> (224 \<le> n \<and> n \<le> 254 \<and> n \<noteq> 247)
     then [char_of (n - 32)]
     else if n = 223 then ''SS'' else [c])"

definition upper :: "string \<Rightarrow> string" where
  "upper s = concat (map upper_char s)"

definition replace_spaces :: "string \<Rightarrow> string" where
  \<comment> \<open>\<open>s.replace(" ", "")\<close>\<close>
  "replace_spaces s = filter (\<lambda>c. c \<noteq> CHR '' '') s"

fun split :: "char \<Rightarrow> string \<Rightarrow> string list" where
  \<comment> \<open>\<open>s.split(sep)\<close> for a separator of one character: never an empty list\<close>
  "split sep [] = [[]]"
| "split sep (c # cs) =
     (if c = sep then [] # split sep cs
      else (let r = split sep cs in (c # hd r) # tl r))"

definition decimal :: "char \<Rightarrow> bool" where
  \<comment> \<open>the digits 0..9\<close>
  "decimal c = (let n = (of_char c :: nat) in 48 \<le> n \<and> n \<le> 57)"

definition digit :: "char \<Rightarrow> bool" where
  \<comment> \<open>Numeric_Type Decimal or Digit: 0..9 and the superscripts two, three (U+00B2, U+00B3)
      and one (U+00B9)\<close>
  "digit c = (let n = (of_char c :: nat) in decimal c \<or> n = 178 \<or> n = 179 \<or> n = 185)"

definition isdigit :: "string \<Rightarrow> bool" where
  \<comment> \<open>\<open>str.isdigit()\<close>: at least one character, all of them digits\<close>
  "isdigit s = (s \<noteq> [] \<and> list_all digit s)"

datatype py_error = ValueError | IndexError

definition py_int :: "string \<Rightarrow> py_error + int" where
  \<comment> \<open>\<open>int(s)\<close> for the strings the program passes, which have passed \<open>isdigit\<close>: the
      decimal value when every character is one of 0..9, ValueError on a superscript
      digit. (Signs, underscores and surrounding blanks, which \<open>int\<close> also reads, never
      reach it; nor does the interpreter's bound on the number of digits, the reply being
      at most 100 tokens.)\<close>
  "py_int s = (if s \<noteq> [] \<and> list_all decimal s
     then Inr (foldl (\<lambda>a c. 10 * a + (int (of_char c) - 48)) 0 s)
     else Inl ValueError)"

definition py_index :: "'a list \<Rightarrow> int \<Rightarrow> py_error + 'a" where
  \<comment> \<open>\<open>xs[i]\<close>: from the front for \<open>0 \<le> i < len(xs)\<close>, from the back for
      \<open>-len(xs) \<le> i < 0\<close>, IndexError elsewhere\<close>
  "py_index xs i =
     (if 0 \<le> i \<and> i < int (length xs) then Inr (xs ! nat i)
      else if i < 0 \<and> - int (length xs) \<le> i then Inr (xs ! nat (int (length xs) + i))
      else Inl IndexError)"

fun collect :: "(py_error + 'a) list \<Rightarrow> py_error + 'a list" where
  \<comment> \<open>a list comprehension whose element expression may raise: the first exception
      ends it\<close>
  "collect [] = Inr []"
| "collect (Inl e # rs) = Inl e"
| "collect (Inr v # rs) = (case collect rs of Inl e \<Rightarrow> Inl e | Inr vs \<Rightarrow> Inr (v # vs))"

definition get :: "'a option \<Rightarrow> 'a \<Rightarrow> 'a" where
  \<comment> \<open>\<open>d.get(key, default)\<close>, the entry of the key given as an option\<close>
  "get entry dflt = (case entry of None \<Rightarrow> dflt | Some v \<Rightarrow> v)"

section \<open>Configuration\<close>

definition SUBREDDITS :: "string list" where
  "SUBREDDITS = [''NYCapartments'', ''movingtoNYC'', ''brooklyn'', ''astoria'']"

definition MAX_AGE_MINUTES :: real where
  "MAX_AGE_MINUTES = 120"

definition KEYWORDS :: "string list" where
  "KEYWORDS = [
    ''streeteasy'', ''street easy'',
    ''apartment hunting'', ''apartment search'', ''apartment hunt'',
    ''new listing'', ''new listings'',
    ''notifications for'', ''get notified'', ''set up alerts'',
    ''be the first'', ''act fast'', ''move fast'', ''first to respond'', ''first to inquire'',
    ''how do i find apartments'', ''how to find apartments'', ''tips for finding'',
    ''looking for an apartment'', ''looking for a place to rent'',
    ''broker fee'', ''no fee apartment'',
    ''moving to nyc soon'', ''relocating to nyc'', ''moving to new york'',
    ''apartment tips'', ''rental search tips'',
    ''refreshing streeteasy'', ''checking streeteasy'', ''streeteasy notifications'',
    ''competitive rental'', ''competitive market'',
    ''beat other applicants'', ''getting outbid'']"

definition SKIP_KEYWORDS :: "string list" where
  "SKIP_KEYWORDS = [
    ''roommate'', ''room for rent'', ''looking for roommate'',
    ''sublease'', ''sublet'']"

section \<open>Items\<close>

text \<open>
  The dictionary \<open>process_post\<close> builds, one field per key. Time stamps are Python floats;
  they are real numbers here, so rounding is not part of the model.
\<close>

record post =
  p_id :: string
  p_type :: string
  p_subreddit :: string
  p_title :: "string option"
  p_text :: string
  p_author :: string
  p_url :: string
  p_created_utc :: real
  p_matched_keywords :: "string list"
  p_score :: int

section \<open>The refiner: \<open>llm_filter\<close>\<close>

text \<open>
  What the one request to the classification service yields in a run: \<open>CallFailed\<close> is
  every exception of the request and of reading its answer (service error, timeout,
  a body that is not the expected JSON, a missing or null content), \<open>Content s\<close> is the
  text of \<open>result["choices"][0]["message"]["content"]\<close>.
\<close>

datatype llm_outcome = CallFailed | Content string

definition parse_indices :: "string \<Rightarrow> py_error + int list" where
  \<comment> \<open>\<open>[int(x.strip()) for x in response_text.replace(" ", "").split(",")
        if x.strip().isdigit()]\<close>\<close>
  "parse_indices response_text =
     collect (map (\<lambda>x. py_int (strip x))
       (filter (\<lambda>x. isdigit (strip x)) (split CHR '','' (replace_spaces response_text))))"

definition select :: "'a list \<Rightarrow> int list \<Rightarrow> py_error + 'a list" where
  \<comment> \<open>\<open>[posts[i] for i in indices if i < len(posts)]\<close>\<close>
  "select posts indices =
     collect (map (py_index posts) (filter (\<lambda>i. i < int (length posts)) indices))"

definition llm_filter :: "bool \<Rightarrow> post list \<Rightarrow> llm_outcome \<Rightarrow> post list" where
  \<comment> \<open>\<open>USE_LLM_FILTER\<close> (an API key is configured) is the first argument. Both handlers
      return \<open>posts\<close>: the bare \<open>except\<close> around the parsing, \<open>except Exception\<close> around
      the request.\<close>
  "llm_filter USE_LLM_FILTER posts outcome =
     (if posts = [] \<or> \<not> USE_LLM_FILTER then posts
      else case outcome of
        CallFailed \<Rightarrow> posts
      | Content content \<Rightarrow>
          (let response_text = strip content in
           if upper response_text = ''NONE'' then []
           else case parse_indices response_text of
             Inl e \<Rightarrow> posts
           | Inr indices \<Rightarrow>
               (case select posts indices of
                  Inl e \<Rightarrow> posts
                | Inr filtered \<Rightarrow> filtered)))"

section \<open>The keyword filter: \<open>is_relevant\<close>\<close>

text \<open>
  \<open>kw in text_lower\<close> is \<^const>\<open>sublist\<close>, the keyword as a contiguous part of the text.
  The first loop returns at its first hit, the second appends every hit to \<open>matched\<close>.
\<close>

fun skip_hit :: "string list \<Rightarrow> string \<Rightarrow> bool" where
  "skip_hit [] text_lower = False"
| "skip_hit (kw # kws) text_lower =
     (if sublist kw text_lower then True else skip_hit kws text_lower)"

fun match_loop :: "string list \<Rightarrow> string \<Rightarrow> string list \<Rightarrow> string list" where
  "match_loop [] text_lower matched = matched"
| "match_loop (kw # kws) text_lower matched =
     match_loop kws text_lower (if sublist kw text_lower then matched @ [kw] else matched)"

definition is_relevant :: "string \<Rightarrow> bool \<times> string list" where
  "is_relevant text =
     (let text_lower = lower text in
      if skip_hit SKIP_KEYWORDS text_lower then (False, [])
      else (True, match_loop KEYWORDS text_lower []))"

section \<open>One item: \<open>process_post\<close>\<close>

text \<open>
  The record of an item as the source API returns it: the dictionary under \<open>"data"\<close>,
  every key of it present or not. A key that is present holds a value of its JSON type.
\<close>

record rdata =
  d_id :: "string option"
  d_created_utc :: "real option"
  d_title :: "string option"
  d_selftext :: "string option"
  d_body :: "string option"
  d_subreddit :: "string option"
  d_author :: "string option"
  d_permalink :: "string option"
  d_score :: "int option"

type_synonym post_data = "rdata option"
  \<comment> \<open>the entry \<open>"data"\<close> of a child of the listing, if it has one\<close>

definition no_data :: rdata where
  \<comment> \<open>the empty dictionary \<open>{}\<close>\<close>
  "no_data = \<lparr>d_id = None, d_created_utc = None, d_title = None, d_selftext = None,
     d_body = None, d_subreddit = None, d_author = None, d_permalink = None,
     d_score = None\<rparr>"

definition post_text :: "rdata \<Rightarrow> string \<Rightarrow> string" where
  \<comment> \<open>the text content: title and selftext of a post, the body of anything else\<close>
  "post_text data post_type =
     (if post_type = ''post''
      then get (d_title data) [] @ '' '' @ get (d_selftext data) []
      else get (d_body data) [])"

definition process_post :: "real \<Rightarrow> post_data \<Rightarrow> string \<Rightarrow> post option" where
  \<comment> \<open>the first argument is what \<open>datetime.now(timezone.utc).timestamp()\<close> reads in
      this call\<close>
  "process_post now_utc post_data post_type =
     (let data = get post_data no_data;
          post_id = get (d_id data) [];
          created_utc = get (d_created_utc data) 0;
          age_minutes = (now_utc - created_utc) / 60
      in if age_minutes > MAX_AGE_MINUTES then None
         else
          (let text = post_text data post_type;
               (relevant, keywords) = is_relevant text
           in if \<not> relevant then None
              else Some \<lparr>
                p_id = post_id,
                p_type = post_type,
                p_subreddit = get (d_subreddit data) [],
                p_title = (if post_type = ''post'' then Some (get (d_title data) [])
                           else None),
                p_text = take 500 text,
                p_author = get (d_author data) [],
                p_url = ''https://reddit.com'' @ get (d_permalink data) [],
                p_created_utc = get (d_created_utc data) 0,
                p_matched_keywords = keywords,
                p_score = get (d_score data) 0\<rparr>))"

section \<open>The ledger: \<open>load_seen\<close> and \<open>save_seen\<close>\<close>

text \<open>
  The state file is absent or holds a JSON array of strings (\<open>save_seen\<close> writes nothing
  else). \<open>seen\<close> is a Python \<open>set\<close>: it keeps no order of insertion, and \<open>list(seen)\<close>
  lists it in the order of the interpreter's hash table, which depends on the hashes of
  the keys (salted anew in every process). That order is the parameter \<open>to_list\<close>: an
  enumeration of the set without repetition, not chosen by the program.
\<close>

definition load_seen :: "string list option \<Rightarrow> string set" where
  "load_seen STATE_FILE = (case STATE_FILE of Some keys \<Rightarrow> set keys | None \<Rightarrow> {})"

definition save_seen :: "(string set \<Rightarrow> string list) \<Rightarrow> string set \<Rightarrow> string list" where
  \<comment> \<open>the list \<open>recent\<close> written to the state file; \<open>l[-5000:]\<close> is all of a shorter \<open>l\<close>\<close>
  "save_seen to_list seen = (let l = to_list seen in drop (length l - 5000) l)"

section \<open>A run: \<open>main\<close>\<close>

text \<open>
  The loop over the posts of a subreddit and the loop over its comments differ in the
  word \<open>post\<close> or \<open>comment\<close> only, here \<open>kind\<close>. Every call of \<open>process_post\<close> reads the
  clock once: \<open>clock k\<close> is reading number \<open>k\<close> of the run, \<open>reads\<close> counts them.
\<close>

record run_state =
  relevant_posts :: "post list"
  new_seen :: "string set"
  reads :: nat

definition full_id :: "string \<Rightarrow> post_data \<Rightarrow> string" where
  \<comment> \<open>\<open>f"post_{post_id}"\<close> and \<open>f"comment_{comment_id}"\<close>\<close>
  "full_id kind item = kind @ ''_'' @ get (d_id (get item no_data)) []"

fun items_loop ::
  "(nat \<Rightarrow> real) \<Rightarrow> string set \<Rightarrow> string \<Rightarrow> post_data list \<Rightarrow> run_state \<Rightarrow> run_state" where
  "items_loop clock seen kind [] st = st"
| "items_loop clock seen kind (item # items) st =
     (let st1 = st\<lparr>new_seen := insert (full_id kind item) (new_seen st)\<rparr>
      in if full_id kind item \<in> seen then items_loop clock seen kind items st1
         else
          (let result = process_post (clock (reads st1)) item kind;
               st2 = st1\<lparr>reads := Suc (reads st1)\<rparr>
           in case result of
                None \<Rightarrow> items_loop clock seen kind items st2
              | Some r \<Rightarrow>
                  items_loop clock seen kind items
                    (st2\<lparr>relevant_posts := relevant_posts st2 @ [r]\<rparr>)))"

fun subreddit_loop ::
  "(nat \<Rightarrow> real) \<Rightarrow> string set \<Rightarrow> (string \<Rightarrow> post_data list) \<Rightarrow> (string \<Rightarrow> post_data list)
    \<Rightarrow> string list \<Rightarrow> run_state \<Rightarrow> run_state" where
  "subreddit_loop clock seen fetch_subreddit fetch_comments [] st = st"
| "subreddit_loop clock seen fetch_subreddit fetch_comments (subreddit # rest) st =
     subreddit_loop clock seen fetch_subreddit fetch_comments rest
       (items_loop clock seen ''comment'' (fetch_comments subreddit)
         (items_loop clock seen ''post'' (fetch_subreddit subreddit) st))"

text \<open>
  What a run leaves behind: the set handed to \<open>save_seen\<close>, the list written to the state
  file, the value \<open>main\<close> returns, the output file if it is written, and the order of
  these effects.
\<close>

datatype event = SaveSeen "string list" | LLMFilter "post list" | WriteOutput "post list"

record run_result =
  seen_final :: "string set"
  persisted :: "string list"
  returned :: "post list"
  output_file :: "post list option"
  events :: "event list"

definition main ::
  "(string set \<Rightarrow> string list) \<Rightarrow> bool \<Rightarrow> llm_outcome \<Rightarrow> (nat \<Rightarrow> real) \<Rightarrow> string list option
    \<Rightarrow> (string \<Rightarrow> post_data list) \<Rightarrow> (string \<Rightarrow> post_data list) \<Rightarrow> run_result" where
  \<comment> \<open>\<open>fetch_subreddit\<close> and \<open>fetch_comments\<close> are what the two fetchers return in this run
      for each subreddit (the empty list after a failed request). The sort is stable and
      descending in \<open>created_utc\<close>.\<close>
  "main to_list USE_LLM_FILTER outcome clock STATE_FILE fetch_subreddit fetch_comments =
     (let seen = load_seen STATE_FILE;
          st = subreddit_loop clock seen fetch_subreddit fetch_comments SUBREDDITS
                 \<lparr>relevant_posts = [], new_seen = {}, reads = 0\<rparr>;
          seen = seen \<union> new_seen st;
          recent = save_seen to_list seen;
          sorted_posts = sort_key (\<lambda>x. - p_created_utc x) (relevant_posts st);
          filtered = (if sorted_posts \<noteq> [] then llm_filter USE_LLM_FILTER sorted_posts outcome
                      else sorted_posts)
      in \<lparr>seen_final = seen,
          persisted = recent,
          returned = filtered,
          output_file = (if filtered \<noteq> [] then Some filtered else None),
          events = [SaveSeen recent]
            @ (if sorted_posts \<noteq> [] then [LLMFilter sorted_posts] else [])
            @ (if filtered \<noteq> [] then [WriteOutput filtered] else [])\<rparr>)"


section \<open>Example inputs\<close>

definition example_post :: "string \<Rightarrow> post" where
  \<comment> \<open>a candidate as \<open>process_post\<close> builds it, told apart by its id\<close>
  "example_post i = \<lparr>p_id = i, p_type = ''post'', p_subreddit = ''astoria'',
     p_title = Some ''ISO 1BR'', p_text = ''ISO 1BR '', p_author = ''u'',
     p_url = ''https://reddit.com'', p_created_utc = 0, p_matched_keywords = [],
     p_score = 1\<rparr>"

definition example_record :: "string \<Rightarrow> real \<Rightarrow> string \<Rightarrow> post_data" where
  \<comment> \<open>a record of the source API with an id, a creation time and a text\<close>
  "example_record i t txt = Some (no_data\<lparr>d_id := Some i, d_created_utc := Some t,
     d_title := Some txt, d_body := Some txt\<rparr>)"

definition old_keys :: "string list" where
  \<comment> \<open>a state file of 5000 keys\<close>
  "old_keys = map (\<lambda>n. ''comment_'' @ replicate n CHR ''x'') [0..<5000]"






section \<open>Facts about the loops of a run\<close>

lemma items_loop_new_seen:
  "new_seen (items_loop clock seen kind items st) = new_seen st \<union> full_id kind ` set items"
  by (induction items arbitrary: st) (auto simp: Let_def split: option.splits)

lemma subreddit_loop_new_seen:
  "new_seen (subreddit_loop clock seen fp fc subs st)
     = new_seen st \<union> (\<Union>sub\<in>set subs. full_id ''post'' ` set (fp sub) \<union> full_id ''comment'' ` set (fc sub))"
  by (induction subs arbitrary: st) (auto simp: items_loop_new_seen)














section \<open>Facts about the refiner\<close>

lemmas refiner_defs =
  llm_filter_def strip_def isspace_def upper_def upper_char_def parse_indices_def
  select_def replace_spaces_def isdigit_def digit_def decimal_def py_int_def py_index_def








section \<open>Facts about the keyword loops and the example state file\<close>

lemma skip_hit_iff: "skip_hit kws t = (\<exists>kw\<in>set kws. sublist kw t)"
  by (induction kws) auto

lemma match_loop_filter: "match_loop kws t matched = matched @ filter (\<lambda>kw. sublist kw t) kws"
  by (induction kws arbitrary: matched) auto

lemma length_old_keys: "length old_keys = 5000"
  by (simp add: old_keys_def)

lemma distinct_old_keys: "distinct old_keys"
  by (simp add: old_keys_def distinct_map inj_on_def)

lemma new_key_not_old: "''post_new'' \<notin> set old_keys"
  by (auto simp: old_keys_def)





section \<open>The refiner: claims C1, C2 and C9\<close>

text \<open>
  Claim C1, at the input where the code leaves it. A failed call returns the candidates,
  and so does a reply whose index \<open>int\<close> cannot read (a one followed by a superscript
  two): the two handlers work. The reply \<open>hello\<close> is neither the sentinel nor a list of
  indices, but the comprehension drops every part that is not a digit string before
  \<open>int\<close> sees it, nothing is raised, and the result is the empty list instead of the
  candidates.
\<close>

theorem llm_filter_unparseable_reply:
  "llm_filter True [example_post ''a'', example_post ''b''] CallFailed
     = [example_post ''a'', example_post ''b'']
   \<and> llm_filter True [example_post ''a'', example_post ''b''] (Content [CHR ''1'', CHR 0xB2])
     = [example_post ''a'', example_post ''b'']
   \<and> llm_filter True [example_post ''a'', example_post ''b''] (Content ''hello'') = []"
  by (simp add: refiner_defs)




text \<open>
  Claim C9. With the classifier configured and a batch of three candidates, the reply
  \<open>0,2\<close> selects the first and the third candidate in that order, the reply \<open>NONE\<close>
  selects nothing, and the reply \<open>5\<close>, an index out of range, selects nothing and raises
  nothing (the result is the empty list, not the fallback).
\<close>

theorem llm_filter_selection:
  "llm_filter True [item0, item1, item2] (Content ''0,2'') = [item0, item2]
   \<and> llm_filter True [item0, item1, item2] (Content ''NONE'') = []
   \<and> llm_filter True [item0, item1, item2] (Content ''5'') = []"
  by (simp add: refiner_defs)

text \<open>Claim C9 at three example candidates.\<close>

theorem llm_filter_selection_witness:
  "llm_filter True [example_post ''a'', example_post ''b'', example_post ''c'']
      (Content ''0,2'') = [example_post ''a'', example_post ''c'']
   \<and> llm_filter True [example_post ''a'', example_post ''b'', example_post ''c'']
      (Content ''NONE'') = []
   \<and> llm_filter True [example_post ''a'', example_post ''b'', example_post ''c'']
      (Content ''5'') = []"
  by (rule llm_filter_selection)

section \<open>The keyword filter: claims C5 and C6\<close>

text \<open>
  Claim C5. When some negative keyword is a substring of the lower-cased text,
  \<open>is_relevant\<close> returns \<open>(False, [])\<close>, whatever positive keywords the text has.
\<close>

theorem is_relevant_negative:
  "\<exists>kw\<in>set SKIP_KEYWORDS. sublist kw (lower text) \<Longrightarrow> is_relevant text = (False, [])"
  by (simp add: is_relevant_def Let_def skip_hit_iff)

text \<open>Claim C5 at a text with a negative and a positive keyword.\<close>

theorem is_relevant_negative_witness:
  "is_relevant ''Looking for a ROOMMATE who loves streeteasy'' = (False, [])"
proof -
  have "\<exists>kw\<in>set SKIP_KEYWORDS. sublist kw (lower ''Looking for a ROOMMATE who loves streeteasy'')"
    by code_simp
  then show ?thesis by (rule is_relevant_negative)
qed

text \<open>
  Claim C6. When no negative keyword is a substring of the lower-cased text,
  \<open>is_relevant\<close> passes the gate, and the matched list is the list of configured
  positive keywords restricted to those that are substrings of the lower-cased text, in
  the configured order; it may be empty.
\<close>

theorem is_relevant_positive:
  "\<forall>kw\<in>set SKIP_KEYWORDS. \<not> sublist kw (lower text) \<Longrightarrow>
   is_relevant text = (True, filter (\<lambda>kw. sublist kw (lower text)) KEYWORDS)"
  by (simp add: is_relevant_def Let_def skip_hit_iff match_loop_filter)

text \<open>Claim C6 at a text with four matches and at a text with none.\<close>

theorem is_relevant_positive_witness:
  "is_relevant ''Checking StreetEasy for new listings''
     = (True, [''streeteasy'', ''new listing'', ''new listings'', ''checking streeteasy''])
   \<and> is_relevant ''bedbugs again'' = (True, [])"
proof -
  have h1: "\<forall>kw\<in>set SKIP_KEYWORDS. \<not> sublist kw (lower ''Checking StreetEasy for new listings'')"
    by code_simp
  have h2: "\<forall>kw\<in>set SKIP_KEYWORDS. \<not> sublist kw (lower ''bedbugs again'')"
    by code_simp
  have e1: "filter (\<lambda>kw. sublist kw (lower ''Checking StreetEasy for new listings'')) KEYWORDS
     = [''streeteasy'', ''new listing'', ''new listings'', ''checking streeteasy'']"
    by code_simp
  have e2: "filter (\<lambda>kw. sublist kw (lower ''bedbugs again'')) KEYWORDS = []"
    by code_simp
  show ?thesis
    using is_relevant_positive[OF h1] is_relevant_positive[OF h2] by (simp only: e1 e2 simp_thms)
qed

section \<open>The recency check: claim C4\<close>

text \<open>
  Claim C4. With the age in minutes computed as the clock reading minus \<open>created_utc\<close>
  (0 when missing), divided by 60: an item older than \<open>MAX_AGE_MINUTES\<close> is rejected;
  an item that is not older goes on to the keyword filter, which alone decides whether it
  is rejected, and so does an item of exactly 120 minutes; an item whose \<open>created_utc\<close>
  is missing or 0 is rejected once the clock is more than 120 minutes past the epoch.
\<close>

theorem process_post_recency:
  "(let data = get post_data no_data;
        age_minutes = (now_utc - get (d_created_utc data) 0) / 60
    in (age_minutes > MAX_AGE_MINUTES \<longrightarrow> process_post now_utc post_data post_type = None)
     \<and> (age_minutes \<le> MAX_AGE_MINUTES \<longrightarrow>
          (process_post now_utc post_data post_type = None
             \<longleftrightarrow> \<not> fst (is_relevant (post_text data post_type))))
     \<and> (age_minutes = 120 \<longrightarrow>
          (process_post now_utc post_data post_type = None
             \<longleftrightarrow> \<not> fst (is_relevant (post_text data post_type))))
     \<and> ((d_created_utc data = None \<or> d_created_utc data = Some 0)
          \<and> now_utc > 60 * MAX_AGE_MINUTES
          \<longrightarrow> process_post now_utc post_data post_type = None))"
  by (auto simp: process_post_def Let_def MAX_AGE_MINUTES_def get_def split: prod.splits option.splits)

text \<open>
  Claim C4 at concrete items: one second beyond the threshold, exactly at it, created at
  0, and without any data.
\<close>

theorem process_post_recency_witness:
  "process_post 10000 (example_record ''a'' 2799 ''hi'') ''post'' = None
   \<and> process_post 10000 (example_record ''a'' 2800 ''hi'') ''post'' \<noteq> None
   \<and> process_post 10000 (example_record ''a'' 0 ''hi'') ''post'' = None
   \<and> process_post 10000 None ''post'' = None"
proof -
  have rel: "fst (is_relevant (post_text (get (example_record ''a'' 2800 ''hi'') no_data) ''post''))"
    by (simp add: example_record_def get_def post_text_def no_data_def is_relevant_def
        lower_def lower_char_def SKIP_KEYWORDS_def sublist_code)
  show ?thesis
    using rel
      process_post_recency[of "example_record ''a'' 2799 ''hi''" 10000 "''post''"]
      process_post_recency[of "example_record ''a'' 2800 ''hi''" 10000 "''post''"]
      process_post_recency[of "example_record ''a'' 0 ''hi''" 10000 "''post''"]
      process_post_recency[of None 10000 "''post''"]
    by (simp add: Let_def example_record_def get_def no_data_def MAX_AGE_MINUTES_def)
qed

section \<open>The ledger: claims C3, C7, C8 and C10\<close>

text \<open>
  Claim C3, at the input where the code leaves it. The state file holds 5000 keys and the
  run fetches one new post, so the set handed to \<open>save_seen\<close> has 5001 keys. The set
  keeps no order of insertion; when its listing starts with the new key (a listing
  without repetition of exactly this set), the slice keeps the 5000 old keys and drops the
  key inserted last.
\<close>

theorem save_seen_drops_newest:
  "(let to_list = (\<lambda>_. ''post_new'' # old_keys);
        r = main to_list False CallFailed (\<lambda>_. 10000) (Some old_keys)
              (\<lambda>s. if s = ''astoria'' then [example_record ''new'' 9990 ''iso 1br''] else [])
              (\<lambda>s. [])
    in set (to_list (seen_final r)) = seen_final r \<and> distinct (to_list (seen_final r))
     \<and> length (to_list (seen_final r)) = 5001
     \<and> ''post_new'' \<notin> load_seen (Some old_keys)
     \<and> persisted r = old_keys
     \<and> ''post_new'' \<notin> set (persisted r))"
proof -
  let ?fp = "\<lambda>s. if s = ''astoria'' then [example_record ''new'' 9990 ''iso 1br''] else []"
  let ?r = "main (\<lambda>_. ''post_new'' # old_keys) False CallFailed (\<lambda>_. 10000) (Some old_keys)
     ?fp (\<lambda>s. [])"
  have key: "full_id ''post'' (example_record ''new'' 9990 ''iso 1br'') = ''post_new''"
    by (simp add: full_id_def example_record_def get_def no_data_def)
  have "new_seen (subreddit_loop (\<lambda>_. 10000) (load_seen (Some old_keys)) ?fp (\<lambda>s. []) SUBREDDITS
          \<lparr>relevant_posts = [], new_seen = {}, reads = 0\<rparr>) = {''post_new''}"
    unfolding subreddit_loop_new_seen by (simp add: SUBREDDITS_def key)
  then have seen: "seen_final ?r = set (''post_new'' # old_keys)"
    by (simp add: main_def Let_def load_seen_def)
  have pers: "persisted ?r = drop (length (''post_new'' # old_keys) - 5000) (''post_new'' # old_keys)"
    by (simp add: main_def Let_def save_seen_def)
  have "drop (length (''post_new'' # old_keys) - 5000) (''post_new'' # old_keys) = old_keys"
    by (simp add: length_old_keys)
  then have pers': "persisted ?r = old_keys"
    using pers by simp
  show ?thesis
    unfolding Let_def pers' seen
    using new_key_not_old distinct_old_keys length_old_keys
    by (simp add: load_seen_def)
qed




text \<open>
  Claim C8. Whatever the state file held, whatever was fetched, in whatever order the set
  is listed, the list a run writes to the state file has at most 5000 keys.
\<close>

theorem persisted_at_most_5000:
  "length (persisted (main to_list use_llm outcome clock state_file fetch_subreddit
     fetch_comments)) \<le> 5000"
  by (simp add: main_def Let_def save_seen_def)

text \<open>Claim C8 at the run from a state file of 5000 keys that fetches one new post.\<close>

theorem persisted_at_most_5000_witness:
  "length (persisted (main (\<lambda>_. ''post_new'' # old_keys) False CallFailed (\<lambda>_. 10000)
     (Some old_keys)
     (\<lambda>s. if s = ''astoria'' then [example_record ''new'' 9990 ''iso 1br''] else [])
     (\<lambda>s. []))) \<le> 5000"
  by (rule persisted_at_most_5000)




end
